theory Spec2Isabelle
  imports Complex_Main
begin

section \<open>JavaScript values\<close>

text \<open>
  A JavaScript number is a double: a finite value, NaN, or one of the two infinities.
  The handlers never compute with numbers (they copy them from the payload into rows and
  test them for truthiness and integrality), so a finite double is represented by the
  rational it denotes; \<open>-0\<close> and \<open>0\<close> are both \<open>Finite 0\<close> (both are falsy).
\<close>

datatype number = Finite rat | NaN | PosInfinity | NegInfinity

text \<open>The value \<open>request.json()\<close> resolves to. An object is a finite map from keys to values.\<close>

datatype json =
    JNull
  | JBool bool
  | JNum number
  | JStr string
  | JArr "json list"
  | JObj "(string \<times> json) list"

text \<open>The tables of the store and the operations the handlers call on them.\<close>

datatype table_name = Orders | OrderItems | Transactions | Products

datatype op = Insert | Select | Delete

text \<open>
  What the handlers take from outside their own code: the two string conversions of the
  JavaScript runtime (they round to doubles, which is not modelled here), and, for every
  store call, whether the store reports an error for it (\<open>Some message\<close>) or not.
\<close>

record env =
  StringToNumber :: "string \<Rightarrow> number"
  NumberToString :: "number \<Rightarrow> string"
  fault :: "op \<Rightarrow> table_name \<Rightarrow> string option"

fun join_comma :: "string list \<Rightarrow> string" where
  "join_comma [] = []"
| "join_comma [s] = s"
| "join_comma (s # t # ss) = s @ '','' @ join_comma (t # ss)"

text \<open>
  \<open>String(v)\<close>. \<open>Array.prototype.join\<close> renders a \<open>null\<close> element as the empty string.
\<close>

fun ToString :: "(number \<Rightarrow> string) \<Rightarrow> json \<Rightarrow> string" where
  "ToString f JNull = ''null''"
| "ToString f (JBool b) = (if b then ''true'' else ''false'')"
| "ToString f (JNum n) = f n"
| "ToString f (JStr s) = s"
| "ToString f (JArr xs) =
     join_comma (map (\<lambda>x. if x = JNull then [] else ToString f x) xs)"
| "ToString f (JObj kvs) = ''[object Object]''"

text \<open>\<open>Number(v)\<close>, which \<open>z.coerce.number()\<close> applies to its input.\<close>

definition Number :: "env \<Rightarrow> json \<Rightarrow> number" where
  "Number e v =
     (case v of
        JNull \<Rightarrow> Finite 0
      | JBool b \<Rightarrow> Finite (if b then 1 else 0)
      | JNum n \<Rightarrow> n
      | JStr s \<Rightarrow> StringToNumber e s
      | JArr xs \<Rightarrow> StringToNumber e (ToString (NumberToString e) v)
      | JObj kvs \<Rightarrow> NaN)"

text \<open>\<open>Number.isInteger\<close>, the test behind \<open>.int()\<close>.\<close>

definition isInteger :: "number \<Rightarrow> bool" where
  "isInteger n = (case n of Finite q \<Rightarrow> of_int \<lfloor>q\<rfloor> = q | _ \<Rightarrow> False)"

text \<open>Truthiness of a number (\<open>if (paymentMethodId)\<close>) and of a string (\<open>created_at ? ... : ...\<close>).\<close>

definition truthy_number :: "number \<Rightarrow> bool" where
  "truthy_number n = (n \<noteq> Finite 0 \<and> n \<noteq> NaN)"

definition truthy_string :: "string \<Rightarrow> bool" where
  "truthy_string s = (s \<noteq> [])"

section \<open>Payload validation\<close>

text \<open>
  The two schemas are declared with the combinators of the validation library; each
  combinator they use is a function here, from the value of a field to the parsed value or
  to the issues found. An object schema reads the keys it declares, parses every one of
  them, and collects the issues of all.

  A schema violation: the kind of the issue and the path of the value it is about.
  The message texts of the validation library are not modelled, only the kind.
\<close>

datatype issue_kind =
    ExpectedNumber | ExpectedInteger | ExpectedString | ExpectedArray | ExpectedObject
  | InvalidEnumValue

datatype path_elem = Key string | Index nat

type_synonym issue = "path_elem list \<times> issue_kind"

type_synonym 'a parse_result = "issue list + 'a"

text \<open>A field of an object; \<open>None\<close> is \<open>undefined\<close> (the key is absent).\<close>

definition field :: "(string \<times> json) list \<Rightarrow> string \<Rightarrow> json option" where
  "field kvs k = map_of kvs k"

text \<open>\<open>z.coerce.number()\<close>: \<open>Number(undefined)\<close> is NaN, and NaN is refused.\<close>

definition coerce_number :: "env \<Rightarrow> json option \<Rightarrow> number parse_result" where
  "coerce_number e v =
     (let n = (case v of None \<Rightarrow> NaN | Some j \<Rightarrow> Number e j)
      in if n = NaN then Inl [([], ExpectedNumber)] else Inr n)"

text \<open>\<open>z.coerce.number().int()\<close>.\<close>

definition coerce_number_int :: "env \<Rightarrow> json option \<Rightarrow> number parse_result" where
  "coerce_number_int e v =
     (case coerce_number e v of
        Inl is \<Rightarrow> Inl is
      | Inr n \<Rightarrow> if isInteger n then Inr n else Inl [([], ExpectedInteger)])"

text \<open>\<open>z.string()\<close>.\<close>

definition z_string :: "json option \<Rightarrow> string parse_result" where
  "z_string v = (case v of Some (JStr s) \<Rightarrow> Inr s | _ \<Rightarrow> Inl [([], ExpectedString)])"

text \<open>\<open>z.enum([...])\<close>.\<close>

definition z_enum :: "string list \<Rightarrow> json option \<Rightarrow> string parse_result" where
  "z_enum vs v =
     (case v of
        Some (JStr s) \<Rightarrow> if s \<in> set vs then Inr s else Inl [([], InvalidEnumValue)]
      | _ \<Rightarrow> Inl [([], InvalidEnumValue)])"

text \<open>\<open>.optional()\<close>: \<open>undefined\<close> is accepted as it is, anything else goes to the inner schema.\<close>

definition optional :: "(json option \<Rightarrow> 'a parse_result) \<Rightarrow> json option \<Rightarrow> 'a option parse_result" where
  "optional p v =
     (case v of
        None \<Rightarrow> Inr None
      | Some j \<Rightarrow> (case p v of Inl is \<Rightarrow> Inl is | Inr a \<Rightarrow> Inr (Some a)))"

text \<open>The issues of a field, with the field's key put in front of their paths.\<close>

definition issues_at :: "path_elem \<Rightarrow> 'a parse_result \<Rightarrow> issue list" where
  "issues_at k r = (case r of Inl is \<Rightarrow> map (\<lambda>(p, i). (k # p, i)) is | Inr a \<Rightarrow> [])"

subsection \<open>orderSchema\<close>

record product_entry =
  pe_id :: number
  pe_quantity :: number
  pe_price :: number

record order_payload =
  customerId :: number
  paymentMethodId :: "number option"
  total :: number
  status :: "string option"
  created_at :: "string option"
  products :: "product_entry list"

text \<open>One element of \<open>products\<close>: \<open>z.object({id, quantity, price})\<close>.\<close>

definition product_entry_parse :: "env \<Rightarrow> json \<Rightarrow> product_entry parse_result" where
  "product_entry_parse e v =
     (case v of
        JObj kvs \<Rightarrow>
          (let i = coerce_number e (field kvs ''id'');
               q = coerce_number_int e (field kvs ''quantity'');
               p = coerce_number e (field kvs ''price'')
           in case (i, q, p) of
                (Inr i', Inr q', Inr p') \<Rightarrow> Inr \<lparr>pe_id = i', pe_quantity = q', pe_price = p'\<rparr>
              | _ \<Rightarrow> Inl (issues_at (Key ''id'') i @ issues_at (Key ''quantity'') q
                         @ issues_at (Key ''price'') p))
      | _ \<Rightarrow> Inl [([], ExpectedObject)])"

text \<open>\<open>z.array(...)\<close>: every element is parsed, and the issues of all of them are collected.\<close>

fun array_parse :: "env \<Rightarrow> nat \<Rightarrow> json list \<Rightarrow> product_entry list parse_result" where
  "array_parse e n [] = Inr []"
| "array_parse e n (x # xs) =
     (let r = product_entry_parse e x; rs = array_parse e (Suc n) xs;
          is = issues_at (Index n) r @ (case rs of Inl js \<Rightarrow> js | Inr ys \<Rightarrow> [])
      in case (r, rs) of
           (Inr y, Inr ys) \<Rightarrow> Inr (y # ys)
         | _ \<Rightarrow> Inl is)"

text \<open>\<open>z.array(...).optional().default([])\<close>.\<close>

definition products_parse :: "env \<Rightarrow> json option \<Rightarrow> product_entry list parse_result" where
  "products_parse e v =
     (case v of
        None \<Rightarrow> Inr []
      | Some (JArr xs) \<Rightarrow> array_parse e 0 xs
      | Some _ \<Rightarrow> Inl [([], ExpectedArray)])"

definition orderSchema_safeParse :: "env \<Rightarrow> json \<Rightarrow> order_payload parse_result" where
  "orderSchema_safeParse e body =
     (case body of
        JObj kvs \<Rightarrow>
          (let c = coerce_number e (field kvs ''customerId'');
               m = optional (coerce_number e) (field kvs ''paymentMethodId'');
               t = coerce_number e (field kvs ''total'');
               s = optional (z_enum [''completed'', ''pending'', ''cancelled''])
                     (field kvs ''status'');
               a = optional z_string (field kvs ''created_at'');
               ps = products_parse e (field kvs ''products'')
           in case (c, m, t, s, a, ps) of
                (Inr c', Inr m', Inr t', Inr s', Inr a', Inr ps') \<Rightarrow>
                  Inr \<lparr>customerId = c', paymentMethodId = m', total = t', status = s',
                       created_at = a', products = ps'\<rparr>
              | _ \<Rightarrow>
                  Inl (issues_at (Key ''customerId'') c @ issues_at (Key ''paymentMethodId'') m
                       @ issues_at (Key ''total'') t @ issues_at (Key ''status'') s
                       @ issues_at (Key ''created_at'') a @ issues_at (Key ''products'') ps))
      | _ \<Rightarrow> Inl [([], ExpectedObject)])"

subsection \<open>productSchema\<close>

text \<open>A value under \<open>z.string().optional().nullable()\<close>.\<close>

datatype nullish_string = Undefined | Null | Str string

definition optional_nullable_string :: "json option \<Rightarrow> nullish_string parse_result" where
  "optional_nullable_string v =
     (case v of
        Some JNull \<Rightarrow> Inr Null
      | None \<Rightarrow> Inr Undefined
      | Some j \<Rightarrow> (case z_string v of Inl is \<Rightarrow> Inl is | Inr s \<Rightarrow> Inr (Str s)))"

record product_payload =
  name :: string
  description :: nullish_string
  price :: number
  in_stock :: number
  category :: nullish_string

definition productSchema_safeParse :: "env \<Rightarrow> json \<Rightarrow> product_payload parse_result" where
  "productSchema_safeParse e body =
     (case body of
        JObj kvs \<Rightarrow>
          (let n = z_string (field kvs ''name'');
               d = optional_nullable_string (field kvs ''description'');
               p = coerce_number e (field kvs ''price'');
               s = coerce_number_int e (field kvs ''in_stock'');
               c = optional_nullable_string (field kvs ''category'')
           in case (n, d, p, s, c) of
                (Inr n', Inr d', Inr p', Inr s', Inr c') \<Rightarrow>
                  Inr \<lparr>name = n', description = d', price = p', in_stock = s', category = c'\<rparr>
              | _ \<Rightarrow>
                  Inl (issues_at (Key ''name'') n @ issues_at (Key ''description'') d
                       @ issues_at (Key ''price'') p @ issues_at (Key ''in_stock'') s
                       @ issues_at (Key ''category'') c))
      | _ \<Rightarrow> Inl [([], ExpectedObject)])"

subsection \<open>The details of a validation failure\<close>

text \<open>
  \<open>parsed.error.flatten()\<close>: the issues with an empty path are the form errors, the others
  are grouped under the first element of their path, in the order the keys first occur.
\<close>

record flattened =
  formErrors :: "issue_kind list"
  fieldErrors :: "(path_elem \<times> issue_kind list) list"

definition flatten :: "issue list \<Rightarrow> flattened" where
  "flatten is =
     \<lparr>formErrors = map snd (filter (\<lambda>(p, i). p = []) is),
      fieldErrors =
        map (\<lambda>k. (k, map snd (filter (\<lambda>(p, i). p \<noteq> [] \<and> hd p = k) is)))
          (rev (remdups (rev (map (\<lambda>(p, i). hd p) (filter (\<lambda>(p, i). p \<noteq> []) is)))))\<rparr>"

section \<open>The store\<close>

type_synonym uid = string

record order_row =
  o_id :: nat
  o_customer_id :: number
  o_total_amount :: number
  o_user_uid :: uid
  o_status :: string
  o_created_at :: string

text \<open>The object given to \<open>from('orders').insert\<close>; \<open>created_at\<close> may be left out.\<close>

record order_insert =
  ins_customer_id :: number
  ins_total_amount :: number
  ins_user_uid :: uid
  ins_status :: string
  ins_created_at :: "string option"

record order_item_row =
  oi_order_id :: nat
  oi_product_id :: number
  oi_quantity :: number
  oi_price :: number

record transaction_row =
  t_order_id :: nat
  t_payment_method_id :: number
  t_amount :: number
  t_user_uid :: uid
  t_status :: string
  t_category :: string
  t_type :: string
  t_description :: string

record product_row =
  p_id :: nat
  p_name :: string
  p_description :: "string option"
  p_price :: number
  p_in_stock :: number
  p_category :: "string option"
  p_user_uid :: uid

text \<open>The object given to \<open>from('products').insert\<close>: the parsed payload and the user.\<close>

record product_insert =
  new_product :: product_payload
  new_user_uid :: uid

text \<open>An order as the handlers return it: the row and the joined customer's name.\<close>

record order_json =
  row :: order_row
  customer :: "string option"

text \<open>The calls a handler makes on the tables of the store, with their arguments.\<close>

datatype store_call =
    InsertOrder order_insert
  | InsertOrderItems "order_item_row list"
  | InsertTransaction transaction_row
  | DeleteOrder nat
  | DeleteOrderItems nat
  | SelectOrders uid
  | SelectProducts uid
  | InsertProduct product_insert

text \<open>
  Modelled from the spec: the store client that \<open>createClient()\<close> of
  \<open>@/lib/supabase/server\<close> returns, and the service behind it, are not among the sources.
  Section 6 of the specification gives their contract: per-table insert, select with an
  equality filter and a one-level join, and delete by equality, each atomic for its table
  and each reporting an error or none. The state below holds the tables, the identifiers
  and the timestamp the store assigns to the next inserted row, and the log of the table
  calls made so far. A call that reports an error changes no table; otherwise an insert
  appends its rows, a select returns the rows that satisfy the equality, and a delete
  removes them. Whether a call reports an error is given from outside (\<open>fault\<close>).
\<close>

record world =
  tbl_orders :: "order_row list"
  tbl_order_items :: "order_item_row list"
  tbl_transactions :: "transaction_row list"
  tbl_products :: "product_row list"
  tbl_customers :: "(number \<times> string) list"
  next_order_id :: nat
  next_product_id :: nat
  now :: string
  calls :: "store_call list"

definition record_call :: "store_call \<Rightarrow> world \<Rightarrow> world" where
  "record_call c w = w\<lparr>calls := calls w @ [c]\<rparr>"

text \<open>
  The row the store makes of an inserted order: it assigns the identifier, and the
  timestamp when the insert gives none.
\<close>

definition stored_order :: "world \<Rightarrow> order_insert \<Rightarrow> order_row" where
  "stored_order w v =
     \<lparr>o_id = next_order_id w, o_customer_id = ins_customer_id v,
      o_total_amount = ins_total_amount v, o_user_uid = ins_user_uid v,
      o_status = ins_status v,
      o_created_at = (case ins_created_at v of None \<Rightarrow> now w | Some c \<Rightarrow> c)\<rparr>"

text \<open>\<open>from('orders').insert(v).select('*, customer:customers(name)').single()\<close>.\<close>

definition insert_order :: "env \<Rightarrow> order_insert \<Rightarrow> world \<Rightarrow> (string + order_json) \<times> world" where
  "insert_order e v w =
     (let w1 = record_call (InsertOrder v) w
      in case fault e Insert Orders of
           Some msg \<Rightarrow> (Inl msg, w1)
         | None \<Rightarrow>
             (let r = stored_order w v
              in (Inr \<lparr>row = r, customer = map_of (tbl_customers w) (ins_customer_id v)\<rparr>,
                  w1\<lparr>tbl_orders := tbl_orders w @ [r],
                     next_order_id := Suc (next_order_id w)\<rparr>)))"

text \<open>\<open>from('order_items').insert(rows)\<close>; the result is the error, if any.\<close>

definition insert_order_items :: "env \<Rightarrow> order_item_row list \<Rightarrow> world \<Rightarrow> string option \<times> world" where
  "insert_order_items e rows w =
     (let w1 = record_call (InsertOrderItems rows) w
      in case fault e Insert OrderItems of
           Some msg \<Rightarrow> (Some msg, w1)
         | None \<Rightarrow> (None, w1\<lparr>tbl_order_items := tbl_order_items w @ rows\<rparr>))"

text \<open>\<open>from('transactions').insert(t)\<close>.\<close>

definition insert_transaction :: "env \<Rightarrow> transaction_row \<Rightarrow> world \<Rightarrow> string option \<times> world" where
  "insert_transaction e t w =
     (let w1 = record_call (InsertTransaction t) w
      in case fault e Insert Transactions of
           Some msg \<Rightarrow> (Some msg, w1)
         | None \<Rightarrow> (None, w1\<lparr>tbl_transactions := tbl_transactions w @ [t]\<rparr>))"

text \<open>\<open>from('orders').delete().eq('id', i)\<close>.\<close>

definition delete_order :: "env \<Rightarrow> nat \<Rightarrow> world \<Rightarrow> string option \<times> world" where
  "delete_order e i w =
     (let w1 = record_call (DeleteOrder i) w
      in case fault e Delete Orders of
           Some msg \<Rightarrow> (Some msg, w1)
         | None \<Rightarrow> (None, w1\<lparr>tbl_orders := filter (\<lambda>r. o_id r \<noteq> i) (tbl_orders w)\<rparr>))"

text \<open>\<open>from('order_items').delete().eq('order_id', i)\<close>.\<close>

definition delete_order_items :: "env \<Rightarrow> nat \<Rightarrow> world \<Rightarrow> string option \<times> world" where
  "delete_order_items e i w =
     (let w1 = record_call (DeleteOrderItems i) w
      in case fault e Delete OrderItems of
           Some msg \<Rightarrow> (Some msg, w1)
         | None \<Rightarrow>
             (None, w1\<lparr>tbl_order_items := filter (\<lambda>r. oi_order_id r \<noteq> i) (tbl_order_items w)\<rparr>))"

text \<open>\<open>from('orders').select(..., customer:customer_id(name)).eq('user_uid', u)\<close>.\<close>

definition select_orders :: "env \<Rightarrow> uid \<Rightarrow> world \<Rightarrow> (string + order_json list) \<times> world" where
  "select_orders e u w =
     (let w1 = record_call (SelectOrders u) w
      in case fault e Select Orders of
           Some msg \<Rightarrow> (Inl msg, w1)
         | None \<Rightarrow>
             (Inr (map (\<lambda>r. \<lparr>row = r, customer = map_of (tbl_customers w) (o_customer_id r)\<rparr>)
                     (filter (\<lambda>r. o_user_uid r = u) (tbl_orders w))), w1))"

text \<open>\<open>from('products').select('*').eq('user_uid', u)\<close>.\<close>

definition select_products :: "env \<Rightarrow> uid \<Rightarrow> world \<Rightarrow> (string + product_row list) \<times> world" where
  "select_products e u w =
     (let w1 = record_call (SelectProducts u) w
      in case fault e Select Products of
           Some msg \<Rightarrow> (Inl msg, w1)
         | None \<Rightarrow> (Inr (filter (\<lambda>r. p_user_uid r = u) (tbl_products w)), w1))"

text \<open>A column left out of an insert (\<open>undefined\<close>) or given as \<open>null\<close> is stored as null.\<close>

definition stored_string :: "nullish_string \<Rightarrow> string option" where
  "stored_string v = (case v of Str s \<Rightarrow> Some s | _ \<Rightarrow> None)"

text \<open>
  \<open>from('products').insert([v]).select()\<close>. The data is the list holding the one inserted
  row; the result here is its first element, which is all the handler reads (\<open>data[0]\<close>).
\<close>

definition insert_product :: "env \<Rightarrow> product_insert \<Rightarrow> world \<Rightarrow> (string + product_row) \<times> world" where
  "insert_product e v w =
     (let w1 = record_call (InsertProduct v) w
      in case fault e Insert Products of
           Some msg \<Rightarrow> (Inl msg, w1)
         | None \<Rightarrow>
             (let r = \<lparr>p_id = next_product_id w, p_name = name (new_product v),
                       p_description = stored_string (description (new_product v)),
                       p_price = price (new_product v), p_in_stock = in_stock (new_product v),
                       p_category = stored_string (category (new_product v)),
                       p_user_uid = new_user_uid v\<rparr>
              in (Inr r, w1\<lparr>tbl_products := tbl_products w @ [r],
                            next_product_id := Suc (next_product_id w)\<rparr>)))"

section \<open>Requests and responses\<close>

text \<open>
  What a handler reads of a request: the user \<open>supabase.auth.getUser()\<close> resolves
  (\<open>None\<close>: no user; the identity resolver is an external service), and the value
  \<open>request.json()\<close> resolves to (\<open>None\<close>: the body is not JSON and the promise rejects).
\<close>

record request =
  session_user :: "uid option"
  body :: "json option"

text \<open>The bodies given to \<open>NextResponse.json\<close>.\<close>

datatype response_body =
    ErrorJson string "flattened option"
  | OrderJson order_json
  | OrdersJson "order_json list"
  | ProductJson product_row
  | ProductsJson "product_row list"

text \<open>The error \<open>request.json()\<close> rejects with when the body is not JSON.\<close>

datatype exception = SyntaxError

text \<open>A handler returns a response (status and body), or an exception leaves it.\<close>

datatype outcome = Response nat response_body | Throws exception

section \<open>The handlers of \<open>orders/route.ts\<close>\<close>

definition GET_orders :: "env \<Rightarrow> request \<Rightarrow> world \<Rightarrow> outcome \<times> world" where
  "GET_orders e req w =
     (case session_user req of
        None \<Rightarrow> (Response 401 (ErrorJson ''Unauthorized'' None), w)
      | Some user \<Rightarrow>
          (case select_orders e user w of
             (Inl msg, w1) \<Rightarrow> (Response 500 (ErrorJson msg None), w1)
           | (Inr data, w1) \<Rightarrow> (Response 200 (OrdersJson data), w1)))"

text \<open>\<open>Number.prototype.toString\<close> on a row identifier: its decimal digits.\<close>

fun digits :: "nat \<Rightarrow> string" where
  "digits n =
     (if n < 10 then [''0123456789'' ! n]
      else digits (n div 10) @ [''0123456789'' ! (n mod 10)])"

declare digits.simps [simp del]

text \<open>The object inserted into \<open>orders\<close>.\<close>

definition order_values :: "uid \<Rightarrow> order_payload \<Rightarrow> order_insert" where
  "order_values user p =
     \<lparr>ins_customer_id = customerId p,
      ins_total_amount = total p,
      ins_user_uid = user,
      ins_status = (case status p of None \<Rightarrow> ''completed'' | Some s \<Rightarrow> s),
      ins_created_at =
        (case created_at p of
           None \<Rightarrow> None
         | Some c \<Rightarrow> if truthy_string c then Some c else None)\<rparr>"

text \<open>\<open>products.map(...)\<close>: the rows inserted into \<open>order_items\<close>.\<close>

definition order_item_rows :: "nat \<Rightarrow> product_entry list \<Rightarrow> order_item_row list" where
  "order_item_rows i ps =
     map (\<lambda>product. \<lparr>oi_order_id = i, oi_product_id = pe_id product,
                      oi_quantity = pe_quantity product, oi_price = pe_price product\<rparr>) ps"

text \<open>The object inserted into \<open>transactions\<close>.\<close>

definition transaction_values :: "uid \<Rightarrow> nat \<Rightarrow> number \<Rightarrow> number \<Rightarrow> transaction_row" where
  "transaction_values user i pm amount =
     \<lparr>t_order_id = i, t_payment_method_id = pm, t_amount = amount, t_user_uid = user,
      t_status = ''completed'', t_category = ''selling'', t_type = ''income'',
      t_description = ''Payment for order #'' @ digits i\<rparr>"

text \<open>
  The third step of the \<open>try\<close> block, from \<open>if (paymentMethodId)\<close> on. \<open>Inl\<close> is the message
  of the error thrown. The results of the two deletes are not looked at.
\<close>

definition transaction_step ::
  "env \<Rightarrow> uid \<Rightarrow> order_payload \<Rightarrow> order_json \<Rightarrow> order_item_row list \<Rightarrow> world
    \<Rightarrow> (string + order_json) \<times> world" where
  "transaction_step e user p orderData orderItems w =
     (case paymentMethodId p of
        None \<Rightarrow> (Inr orderData, w)
      | Some pm \<Rightarrow>
          if truthy_number pm then
            (case insert_transaction e
                    (transaction_values user (o_id (row orderData)) pm (total p)) w of
               (Some transactionError, w1) \<Rightarrow>
                 (let w2 = snd (delete_order e (o_id (row orderData)) w1);
                      w3 = (if orderItems \<noteq> []
                            then snd (delete_order_items e (o_id (row orderData)) w2)
                            else w2)
                  in (Inl transactionError, w3))
             | (None, w1) \<Rightarrow> (Inr orderData, w1))
          else (Inr orderData, w))"

text \<open>The second step, from \<open>const orderItems = ...\<close> on.\<close>

definition items_step ::
  "env \<Rightarrow> uid \<Rightarrow> order_payload \<Rightarrow> order_json \<Rightarrow> world \<Rightarrow> (string + order_json) \<times> world" where
  "items_step e user p orderData w =
     (let orderItems = order_item_rows (o_id (row orderData)) (products p)
      in if orderItems \<noteq> [] then
           (case insert_order_items e orderItems w of
              (Some itemsError, w1) \<Rightarrow>
                (Inl itemsError, snd (delete_order e (o_id (row orderData)) w1))
            | (None, w1) \<Rightarrow> transaction_step e user p orderData orderItems w1)
         else transaction_step e user p orderData orderItems w)"

text \<open>The whole \<open>try\<close> block.\<close>

definition try_block ::
  "env \<Rightarrow> uid \<Rightarrow> order_payload \<Rightarrow> world \<Rightarrow> (string + order_json) \<times> world" where
  "try_block e user p w =
     (case insert_order e (order_values user p) w of
        (Inl orderError, w1) \<Rightarrow> (Inl orderError, w1)
      | (Inr orderData, w1) \<Rightarrow> items_step e user p orderData w1)"

definition POST_orders :: "env \<Rightarrow> request \<Rightarrow> world \<Rightarrow> outcome \<times> world" where
  "POST_orders e req w =
     (case session_user req of
        None \<Rightarrow> (Response 401 (ErrorJson ''Unauthorized'' None), w)
      | Some user \<Rightarrow>
          (case body req of
             None \<Rightarrow> (Throws SyntaxError, w)
           | Some b \<Rightarrow>
               (case orderSchema_safeParse e b of
                  Inl is \<Rightarrow> (Response 400 (ErrorJson ''Invalid request'' (Some (flatten is))), w)
                | Inr p \<Rightarrow>
                    (case try_block e user p w of
                       (Inr orderData, w1) \<Rightarrow> (Response 200 (OrderJson orderData), w1)
                     | (Inl message, w1) \<Rightarrow> (Response 500 (ErrorJson message None), w1)))))"

section \<open>The handlers of \<open>products/route.ts\<close>\<close>

definition GET_products :: "env \<Rightarrow> request \<Rightarrow> world \<Rightarrow> outcome \<times> world" where
  "GET_products e req w =
     (case session_user req of
        None \<Rightarrow> (Response 401 (ErrorJson ''Unauthorized'' None), w)
      | Some user \<Rightarrow>
          (case select_products e user w of
             (Inl msg, w1) \<Rightarrow> (Response 500 (ErrorJson msg None), w1)
           | (Inr data, w1) \<Rightarrow> (Response 200 (ProductsJson data), w1)))"

definition POST_products :: "env \<Rightarrow> request \<Rightarrow> world \<Rightarrow> outcome \<times> world" where
  "POST_products e req w =
     (case session_user req of
        None \<Rightarrow> (Response 401 (ErrorJson ''Unauthorized'' None), w)
      | Some user \<Rightarrow>
          (case body req of
             None \<Rightarrow> (Throws SyntaxError, w)
           | Some b \<Rightarrow>
               (case productSchema_safeParse e b of
                  Inl is \<Rightarrow> (Response 400 (ErrorJson ''Invalid request'' (Some (flatten is))), w)
                | Inr newProduct \<Rightarrow>
                    (case insert_product e \<lparr>new_product = newProduct, new_user_uid = user\<rparr> w of
                       (Inl msg, w1) \<Rightarrow> (Response 500 (ErrorJson msg None), w1)
                     | (Inr data0, w1) \<Rightarrow> (Response 200 (ProductJson data0), w1)))))"

section \<open>Observations and sample inputs\<close>

text \<open>The rows of \<open>orders\<close> and of \<open>products\<close> that a response carries.\<close>

definition returned_orders :: "outcome \<Rightarrow> order_row list" where
  "returned_orders r =
     (case r of
        Response s (OrdersJson rs) \<Rightarrow> map row rs
      | Response s (OrderJson x) \<Rightarrow> [row x]
      | _ \<Rightarrow> [])"

definition returned_products :: "outcome \<Rightarrow> product_row list" where
  "returned_products r =
     (case r of
        Response s (ProductsJson rs) \<Rightarrow> rs
      | Response s (ProductJson x) \<Rightarrow> [x]
      | _ \<Rightarrow> [])"

text \<open>
  The environment of the concrete requests evaluated below: the store reports the error
  \<open>msg\<close> for the calls listed in \<open>cs\<close> and none for the others. The numeric fields of
  these requests hold number literals only, so that neither string conversion is consulted.
\<close>

definition sample_env :: "(op \<times> table_name) list \<Rightarrow> string \<Rightarrow> env" where
  "sample_env cs msg =
     \<lparr>StringToNumber = (\<lambda>s. NaN), NumberToString = (\<lambda>n. []),
      fault = (\<lambda>a t. if (a, t) \<in> set cs then Some msg else None)\<rparr>"

text \<open>A store with one order and one product of each of two users; the next order is number 12.\<close>

definition sample_world :: world where
  "sample_world =
     \<lparr>tbl_orders =
        [\<lparr>o_id = 10, o_customer_id = Finite 1, o_total_amount = Finite 30, o_user_uid = ''ann'',
          o_status = ''completed'', o_created_at = ''2024-05-01''\<rparr>,
         \<lparr>o_id = 11, o_customer_id = Finite 2, o_total_amount = Finite 8, o_user_uid = ''bob'',
          o_status = ''pending'', o_created_at = ''2024-05-02''\<rparr>],
      tbl_order_items =
        [\<lparr>oi_order_id = 10, oi_product_id = Finite 1, oi_quantity = Finite 3,
          oi_price = Finite 10\<rparr>],
      tbl_transactions = [],
      tbl_products =
        [\<lparr>p_id = 1, p_name = ''tea'', p_description = None, p_price = Finite 10,
          p_in_stock = Finite 4, p_category = None, p_user_uid = ''ann''\<rparr>,
         \<lparr>p_id = 2, p_name = ''jam'', p_description = Some ''plum'', p_price = Finite 4,
          p_in_stock = Finite 0, p_category = None, p_user_uid = ''bob''\<rparr>],
      tbl_customers = [(Finite 1, ''Carol''), (Finite 2, ''Dan'')],
      next_order_id = 12,
      next_product_id = 3,
      now = ''2024-06-01'',
      calls = []\<rparr>"

text \<open>An order of two units of product 1, paid with payment method 2.\<close>

definition sample_order :: json where
  "sample_order =
     JObj [(''customerId'', JNum (Finite 1)),
           (''paymentMethodId'', JNum (Finite 2)),
           (''total'', JNum (Finite 20)),
           (''products'',
              JArr [JObj [(''id'', JNum (Finite 1)), (''quantity'', JNum (Finite 2)),
                          (''price'', JNum (Finite 10))]])]"

text \<open>A body whose \<open>total\<close> is an object and whose one product has the quantity 1.5.\<close>

definition bad_order :: json where
  "bad_order =
     JObj [(''customerId'', JNum (Finite 1)),
           (''total'', JObj []),
           (''products'',
              JArr [JObj [(''id'', JNum (Finite 1)), (''quantity'', JNum (Finite (3 / 2))),
                          (''price'', JNum (Finite 10))]])]"


text \<open>An order whose \<open>paymentMethodId\<close> is the number 0.\<close>

definition order_payment_zero :: json where
  "order_payment_zero =
     JObj [(''customerId'', JNum (Finite 1)),
           (''paymentMethodId'', JNum (Finite 0)),
           (''total'', JNum (Finite 20))]"

text \<open>An order with a \<open>created_at\<close>, and one whose \<open>created_at\<close> is the empty string.\<close>

definition order_created_at :: json where
  "order_created_at =
     JObj [(''customerId'', JNum (Finite 1)),
           (''total'', JNum (Finite 20)),
           (''created_at'', JStr ''2023-12-24'')]"

definition order_created_at_empty :: json where
  "order_created_at_empty =
     JObj [(''customerId'', JNum (Finite 1)),
           (''total'', JNum (Finite 20)),
           (''created_at'', JStr [])]"

text \<open>An order of minus one unit of product 1.\<close>

definition order_negative_quantity :: json where
  "order_negative_quantity =
     JObj [(''customerId'', JNum (Finite 1)),
           (''total'', JNum (Finite 20)),
           (''products'',
              JArr [JObj [(''id'', JNum (Finite 1)), (''quantity'', JNum (Finite (- 1))),
                          (''price'', JNum (Finite 10))]])]"

section \<open>Facts about the validators and the order workflow\<close>

lemmas store_defs =
  insert_order_def insert_order_items_def insert_transaction_def delete_order_def
  delete_order_items_def select_orders_def select_products_def insert_product_def
  record_call_def stored_order_def

lemmas workflow_defs = try_block_def items_step_def transaction_step_def




















text \<open>
  For an authenticated request with a valid body, \<open>POST\<close> is the \<open>try\<close> block followed by
  the mapping of its result to a response.
\<close>

lemma POST_orders_valid:
  assumes "session_user req = Some u" and "body req = Some b"
    and "orderSchema_safeParse e b = Inr p"
  shows "snd (POST_orders e req w) = snd (try_block e u p w)"
    and "fst (POST_orders e req w) =
      (case fst (try_block e u p w) of
         Inr orderData \<Rightarrow> Response 200 (OrderJson orderData)
       | Inl message \<Rightarrow> Response 500 (ErrorJson message None))"
  using assms by (simp_all add: POST_orders_def split: prod.splits sum.splits)

lemma try_block_insert_fails:
  assumes "fault e Insert Orders = Some m"
  shows "try_block e u p w = (Inl m, record_call (InsertOrder (order_values u p)) w)"
  using assms by (simp add: try_block_def insert_order_def)

lemma try_block_first_call:
  "\<exists>cs. calls (snd (try_block e u p w)) = calls w @ InsertOrder (order_values u p) # cs"
  by (simp add: workflow_defs store_defs Let_def split: option.splits)

lemma try_block_success:
  assumes "try_block e u p w = (Inr od, w')"
  shows "row od = stored_order w (order_values u p)
       \<and> tbl_orders w' = tbl_orders w @ [row od]
       \<and> tbl_order_items w' = tbl_order_items w @ order_item_rows (next_order_id w) (products p)"
  using assms
  by (auto simp add: workflow_defs store_defs Let_def order_item_rows_def
      split: option.splits if_splits)

lemma try_block_transaction_fails:
  assumes "fault e Insert Orders = None"
    and "products p \<noteq> [] \<longrightarrow> fault e Insert OrderItems = None"
    and "paymentMethodId p = Some pm" and "truthy_number pm"
    and "fault e Insert Transactions = Some m"
  shows "fst (try_block e u p w) = Inl m"
    and "fault e Delete Orders = None \<Longrightarrow>
           tbl_orders (snd (try_block e u p w))
             = filter (\<lambda>r. o_id r \<noteq> next_order_id w) (tbl_orders w)"
    and "fault e Delete OrderItems = None \<Longrightarrow>
           tbl_order_items (snd (try_block e u p w))
             = filter (\<lambda>r. oi_order_id r \<noteq> next_order_id w) (tbl_order_items w)
             \<or> products p = [] \<and> tbl_order_items (snd (try_block e u p w)) = tbl_order_items w"
    and "tbl_transactions (snd (try_block e u p w)) = tbl_transactions w"
  using assms
  by (auto simp add: workflow_defs store_defs Let_def order_item_rows_def
      split: option.splits if_splits)

lemma try_block_items_fail:
  assumes "fault e Insert Orders = None"
    and "products p \<noteq> []"
    and "fault e Insert OrderItems = Some m"
  shows "fst (try_block e u p w) = Inl m"
    and "fault e Delete Orders = None \<Longrightarrow>
           tbl_orders (snd (try_block e u p w))
             = filter (\<lambda>r. o_id r \<noteq> next_order_id w) (tbl_orders w)"
    and "tbl_order_items (snd (try_block e u p w)) = tbl_order_items w"
    and "tbl_transactions (snd (try_block e u p w)) = tbl_transactions w"
  using assms
  by (auto simp add: workflow_defs store_defs Let_def order_item_rows_def
      split: option.splits if_splits)

lemma try_block_transaction:
  assumes "try_block e u p w = (Inr od, w')"
    and "paymentMethodId p = Some pm" and "truthy_number pm"
  shows "tbl_transactions w' = tbl_transactions w @
           [\<lparr>t_order_id = o_id (row od), t_payment_method_id = pm, t_amount = total p,
             t_user_uid = u, t_status = ''completed'', t_category = ''selling'',
             t_type = ''income'',
             t_description = ''Payment for order #'' @ digits (o_id (row od))\<rparr>]"
  using assms
  by (auto simp add: workflow_defs store_defs Let_def transaction_values_def
      split: option.splits if_splits)

lemma try_block_no_transaction:
  assumes "\<forall>pm. paymentMethodId p = Some pm \<longrightarrow> \<not> truthy_number pm"
  shows "tbl_transactions (snd (try_block e u p w)) = tbl_transactions w"
    and "InsertTransaction t \<in> set (calls (snd (try_block e u p w)))
           \<Longrightarrow> InsertTransaction t \<in> set (calls w)"
  using assms
  by (auto simp add: workflow_defs store_defs Let_def split: option.splits if_splits)

lemma try_block_no_fault:
  assumes "fault e Insert Orders = None" and "fault e Insert OrderItems = None"
    and "fault e Insert Transactions = None"
  shows "\<exists>od. fst (try_block e u p w) = Inr od"
  using assms
  by (auto simp add: workflow_defs store_defs Let_def split: option.splits if_splits)

lemma try_block_order_items:
  "set (tbl_order_items (snd (try_block e u p w)))
     \<subseteq> set (tbl_order_items w) \<union> set (order_item_rows (next_order_id w) (products p))"
  by (auto simp add: workflow_defs store_defs Let_def split: option.splits if_splits)

lemma GET_orders_returns_stored:
  "set (returned_orders (fst (GET_orders e req w))) \<subseteq> set (tbl_orders w)"
  by (auto simp add: GET_orders_def select_orders_def returned_orders_def Let_def
      split: option.splits)

text \<open>The quantity of an accepted product entry passed \<open>.int()\<close>.\<close>

lemma coerce_number_int_integer: "coerce_number_int e v = Inr n \<Longrightarrow> isInteger n"
  by (auto simp add: coerce_number_int_def split: sum.splits if_splits)

lemma product_entry_parse_integer:
  "product_entry_parse e x = Inr y \<Longrightarrow> isInteger (pe_quantity y)"
  unfolding product_entry_parse_def Let_def
  by (auto split: json.splits sum.splits dest: coerce_number_int_integer)

lemma array_parse_integer:
  "array_parse e n xs = Inr ys \<Longrightarrow> \<forall>y \<in> set ys. isInteger (pe_quantity y)"
proof (induction xs arbitrary: n ys)
  case Nil
  then show ?case by simp
next
  case (Cons x xs)
  then show ?case
    by (auto simp add: Let_def split: sum.splits dest: product_entry_parse_integer)
qed

lemma products_parse_integer:
  "products_parse e v = Inr ys \<Longrightarrow> \<forall>y \<in> set ys. isInteger (pe_quantity y)"
  by (auto simp add: products_parse_def split: option.splits json.splits
      dest: array_parse_integer)

lemma orderSchema_quantity_integer:
  assumes "orderSchema_safeParse e b = Inr p"
  shows "\<forall>y \<in> set (products p). isInteger (pe_quantity y)"
  using assms unfolding orderSchema_safeParse_def Let_def
  by (auto split: json.splits sum.splits dest: products_parse_integer)

subsection \<open>The sample inputs, evaluated\<close>

lemmas parse_defs =
  orderSchema_safeParse_def productSchema_safeParse_def products_parse_def
  product_entry_parse_def coerce_number_def coerce_number_int_def Number_def isInteger_def
  z_string_def z_enum_def optional_def optional_nullable_string_def issues_at_def field_def

lemmas handler_defs =
  POST_orders_def workflow_defs store_defs order_values_def order_item_rows_def
  transaction_values_def truthy_number_def truthy_string_def Let_def

lemma fault_sample_env:
  "fault (sample_env cs msg) a t = (if (a, t) \<in> set cs then Some msg else None)"
  by (simp add: sample_env_def)

lemma sample_order_parse:
  "orderSchema_safeParse (sample_env cs msg) sample_order
     = Inr \<lparr>customerId = Finite 1, paymentMethodId = Some (Finite 2), total = Finite 20,
            status = None, created_at = None,
            products = [\<lparr>pe_id = Finite 1, pe_quantity = Finite 2, pe_price = Finite 10\<rparr>]\<rparr>"
  by (simp add: sample_order_def sample_env_def parse_defs)

lemma order_payment_zero_parse:
  "orderSchema_safeParse (sample_env cs msg) order_payment_zero
     = Inr \<lparr>customerId = Finite 1, paymentMethodId = Some (Finite 0), total = Finite 20,
            status = None, created_at = None, products = []\<rparr>"
  by (simp add: order_payment_zero_def sample_env_def parse_defs)

lemma order_created_at_parse:
  "orderSchema_safeParse (sample_env cs msg) order_created_at
     = Inr \<lparr>customerId = Finite 1, paymentMethodId = None, total = Finite 20,
            status = None, created_at = Some ''2023-12-24'', products = []\<rparr>"
  by (simp add: order_created_at_def sample_env_def parse_defs)

lemma order_created_at_empty_parse:
  "orderSchema_safeParse (sample_env cs msg) order_created_at_empty
     = Inr \<lparr>customerId = Finite 1, paymentMethodId = None, total = Finite 20,
            status = None, created_at = Some [], products = []\<rparr>"
  by (simp add: order_created_at_empty_def sample_env_def parse_defs)

lemma order_negative_quantity_parse:
  "orderSchema_safeParse (sample_env cs msg) order_negative_quantity
     = Inr \<lparr>customerId = Finite 1, paymentMethodId = None, total = Finite 20,
            status = None, created_at = None,
            products = [\<lparr>pe_id = Finite 1, pe_quantity = Finite (- 1), pe_price = Finite 10\<rparr>]\<rparr>"
  by (simp add: order_negative_quantity_def sample_env_def parse_defs)

section \<open>The claims\<close>

subsection \<open>C1: a failing insert into \<open>transactions\<close>\<close>

text \<open>
  C1, as amended. Take an authenticated request with a valid order whose \<open>paymentMethodId\<close>
  is truthy, and a store that accepts the insert into \<open>orders\<close> (and into \<open>order_items\<close>,
  when there are products) and reports the error \<open>m\<close> for the insert into \<open>transactions\<close>.
  Then the response is 500 with the message \<open>m\<close>. If the store reports no error for the
  delete on \<open>orders\<close>, no row of \<open>orders\<close> has the identifier of the new order afterwards;
  if it reports none for the delete on \<open>order_items\<close> (and no row referred to the new
  identifier before the request), no row of \<open>order_items\<close> refers to the new order
  afterwards. The handler does not look at the results of the two deletes.
\<close>

theorem transaction_failure_rolls_back:
  assumes "session_user req = Some u" and "body req = Some b"
    and "orderSchema_safeParse e b = Inr p"
    and "fault e Insert Orders = None"
    and "products p \<noteq> [] \<longrightarrow> fault e Insert OrderItems = None"
    and "paymentMethodId p = Some pm" and "truthy_number pm"
    and "fault e Insert Transactions = Some m"
  shows "fst (POST_orders e req w) = Response 500 (ErrorJson m None)
       \<and> (fault e Delete Orders = None \<longrightarrow>
            (\<forall>r \<in> set (tbl_orders (snd (POST_orders e req w))). o_id r \<noteq> next_order_id w))
       \<and> (fault e Delete OrderItems = None
            \<and> (\<forall>r \<in> set (tbl_order_items w). oi_order_id r \<noteq> next_order_id w) \<longrightarrow>
            (\<forall>r \<in> set (tbl_order_items (snd (POST_orders e req w))).
               oi_order_id r \<noteq> next_order_id w))"
proof (intro conjI impI)
  note valid = POST_orders_valid [OF assms(1-3)]
  note fails = try_block_transaction_fails [OF assms(4-8)]
  show "fst (POST_orders e req w) = Response 500 (ErrorJson m None)"
    by (simp add: valid fails(1))
  show "\<forall>r \<in> set (tbl_orders (snd (POST_orders e req w))). o_id r \<noteq> next_order_id w"
    if "fault e Delete Orders = None"
    using fails(2) [OF that] by (simp add: valid)
  show "\<forall>r \<in> set (tbl_order_items (snd (POST_orders e req w))). oi_order_id r \<noteq> next_order_id w"
    if "fault e Delete OrderItems = None
        \<and> (\<forall>r \<in> set (tbl_order_items w). oi_order_id r \<noteq> next_order_id w)"
    using fails(3) [of u w] that by (auto simp add: valid)
qed

text \<open>
  The sample order, with the insert into \<open>transactions\<close> failing: the response is 500, and
  the tables hold the orders 10 and 11 and the item of order 10, as before the request.
\<close>

theorem transaction_failure_rolls_back_witness:
  "fst (POST_orders (sample_env [(Insert, Transactions)] ''transactions down'')
         \<lparr>session_user = Some ''ann'', body = Some sample_order\<rparr> sample_world)
     = Response 500 (ErrorJson ''transactions down'' None)
   \<and> map o_id (tbl_orders (snd (POST_orders
         (sample_env [(Insert, Transactions)] ''transactions down'')
         \<lparr>session_user = Some ''ann'', body = Some sample_order\<rparr> sample_world))) = [10, 11]
   \<and> map oi_order_id (tbl_order_items (snd (POST_orders
         (sample_env [(Insert, Transactions)] ''transactions down'')
         \<lparr>session_user = Some ''ann'', body = Some sample_order\<rparr> sample_world))) = [10]"
  using transaction_failure_rolls_back
      [of "\<lparr>session_user = Some ''ann'', body = Some sample_order\<rparr>" "''ann''" sample_order
        "sample_env [(Insert, Transactions)] ''transactions down''" _ "Finite 2"
        "''transactions down''" sample_world]
    sample_order_parse [of "[(Insert, Transactions)]" "''transactions down''"]
  by (simp add: handler_defs fault_sample_env sample_world_def)

text \<open>
  C1 as it is stated fails when the store also reports an error for the delete on
  \<open>orders\<close>: the response is 500, and the new order, number 12, stays in the table.
\<close>

theorem transaction_failure_delete_fails:
  "fst (POST_orders (sample_env [(Insert, Transactions), (Delete, Orders)] ''store down'')
         \<lparr>session_user = Some ''ann'', body = Some sample_order\<rparr> sample_world)
     = Response 500 (ErrorJson ''store down'' None)
   \<and> next_order_id sample_world = 12
   \<and> map o_id (tbl_orders (snd (POST_orders
         (sample_env [(Insert, Transactions), (Delete, Orders)] ''store down'')
         \<lparr>session_user = Some ''ann'', body = Some sample_order\<rparr> sample_world)))
     = [10, 11, 12]"
  using sample_order_parse [of "[(Insert, Transactions), (Delete, Orders)]" "''store down''"]
  by (simp add: handler_defs fault_sample_env sample_world_def)

subsection \<open>C2: a failing insert into \<open>order_items\<close>\<close>

text \<open>
  C2, as amended. Take an authenticated request with a valid order that has products, and
  a store that accepts the insert into \<open>orders\<close> and reports the error \<open>m\<close> for the
  insert into \<open>order_items\<close>. Then the response is 500 with the message \<open>m\<close>. If the store
  reports no error for the delete on \<open>orders\<close>, no row of \<open>orders\<close> has the identifier
  of the new order afterwards, and no later \<open>GET\<close>, by any user, returns such a row.
\<close>

theorem items_failure_rolls_back:
  assumes "session_user req = Some u" and "body req = Some b"
    and "orderSchema_safeParse e b = Inr p"
    and "fault e Insert Orders = None"
    and "products p \<noteq> []"
    and "fault e Insert OrderItems = Some m"
  shows "fst (POST_orders e req w) = Response 500 (ErrorJson m None)
       \<and> (fault e Delete Orders = None \<longrightarrow>
            (\<forall>r \<in> set (tbl_orders (snd (POST_orders e req w))). o_id r \<noteq> next_order_id w)
            \<and> (\<forall>r \<in> set (returned_orders
                             (fst (GET_orders e' req' (snd (POST_orders e req w))))).
                 o_id r \<noteq> next_order_id w))"
proof (intro conjI impI)
  note valid = POST_orders_valid [OF assms(1-3)]
  note fails = try_block_items_fail [OF assms(4-6)]
  show "fst (POST_orders e req w) = Response 500 (ErrorJson m None)"
    by (simp add: valid fails(1))
  assume "fault e Delete Orders = None"
  from fails(2) [OF this]
  show gone: "\<forall>r \<in> set (tbl_orders (snd (POST_orders e req w))). o_id r \<noteq> next_order_id w"
    by (simp add: valid)
  then show "\<forall>r \<in> set (returned_orders
                         (fst (GET_orders e' req' (snd (POST_orders e req w))))).
               o_id r \<noteq> next_order_id w"
    using GET_orders_returns_stored by blast
qed

text \<open>
  The sample order, with the insert into \<open>order_items\<close> failing: the response is 500, the
  table holds the orders 10 and 11, and the user's next \<open>GET\<close> returns order 10 alone.
\<close>

theorem items_failure_rolls_back_witness:
  "fst (POST_orders (sample_env [(Insert, OrderItems)] ''items down'')
         \<lparr>session_user = Some ''ann'', body = Some sample_order\<rparr> sample_world)
     = Response 500 (ErrorJson ''items down'' None)
   \<and> map o_id (tbl_orders (snd (POST_orders (sample_env [(Insert, OrderItems)] ''items down'')
         \<lparr>session_user = Some ''ann'', body = Some sample_order\<rparr> sample_world))) = [10, 11]
   \<and> map o_id (returned_orders (fst (GET_orders (sample_env [] [])
         \<lparr>session_user = Some ''ann'', body = None\<rparr>
         (snd (POST_orders (sample_env [(Insert, OrderItems)] ''items down'')
           \<lparr>session_user = Some ''ann'', body = Some sample_order\<rparr> sample_world))))) = [10]"
  using items_failure_rolls_back
      [of "\<lparr>session_user = Some ''ann'', body = Some sample_order\<rparr>" "''ann''" sample_order
        "sample_env [(Insert, OrderItems)] ''items down''" _ "''items down''" sample_world
        "sample_env [] []" "\<lparr>session_user = Some ''ann'', body = None\<rparr>"]
    sample_order_parse [of "[(Insert, OrderItems)]" "''items down''"]
  by (simp add: handler_defs fault_sample_env sample_world_def GET_orders_def
      returned_orders_def)

text \<open>
  C2 as it is stated fails when the store also reports an error for the delete on
  \<open>orders\<close>: the response is 500, the new order, number 12, stays in the table, and the
  user's next \<open>GET\<close> returns it.
\<close>

theorem items_failure_delete_fails:
  "fst (POST_orders (sample_env [(Insert, OrderItems), (Delete, Orders)] ''store down'')
         \<lparr>session_user = Some ''ann'', body = Some sample_order\<rparr> sample_world)
     = Response 500 (ErrorJson ''store down'' None)
   \<and> next_order_id sample_world = 12
   \<and> map o_id (returned_orders (fst (GET_orders (sample_env [] [])
         \<lparr>session_user = Some ''ann'', body = None\<rparr>
         (snd (POST_orders (sample_env [(Insert, OrderItems), (Delete, Orders)] ''store down'')
           \<lparr>session_user = Some ''ann'', body = Some sample_order\<rparr> sample_world)))))
     = [10, 12]"
  using sample_order_parse [of "[(Insert, OrderItems), (Delete, Orders)]" "''store down''"]
  by (simp add: handler_defs fault_sample_env sample_world_def GET_orders_def
      returned_orders_def)

subsection \<open>C3: the transaction row\<close>

text \<open>
  C3, as amended. For an authenticated request with a valid order: when \<open>paymentMethodId\<close>
  was supplied and is truthy (a number other than 0) and the response is 200, exactly one
  row has been appended to \<open>transactions\<close>; it refers to the new order and to the user, its
  amount is the order's total, its status, category and type are \<open>completed\<close>, \<open>selling\<close>
  and \<open>income\<close>, and its description is \<open>Payment for order #\<close> followed by the order's
  identifier. When \<open>paymentMethodId\<close> is absent or 0, \<open>transactions\<close> is left as it was and
  no insert into it is made. When the store reports no error for the three inserts, the
  response is 200.
\<close>

theorem transaction_row_inserted:
  assumes "session_user req = Some u" and "body req = Some b"
    and "orderSchema_safeParse e b = Inr p"
  shows "(\<forall>pm od. paymentMethodId p = Some pm \<and> truthy_number pm
              \<and> fst (POST_orders e req w) = Response 200 (OrderJson od) \<longrightarrow>
            tbl_transactions (snd (POST_orders e req w)) = tbl_transactions w @
              [\<lparr>t_order_id = o_id (row od), t_payment_method_id = pm, t_amount = total p,
                t_user_uid = u, t_status = ''completed'', t_category = ''selling'',
                t_type = ''income'',
                t_description = ''Payment for order #'' @ digits (o_id (row od))\<rparr>])
       \<and> ((\<forall>pm. paymentMethodId p = Some pm \<longrightarrow> \<not> truthy_number pm) \<longrightarrow>
            tbl_transactions (snd (POST_orders e req w)) = tbl_transactions w
            \<and> (\<forall>t. InsertTransaction t \<in> set (calls (snd (POST_orders e req w)))
                 \<longrightarrow> InsertTransaction t \<in> set (calls w)))
       \<and> (fault e Insert Orders = None \<and> fault e Insert OrderItems = None
              \<and> fault e Insert Transactions = None \<longrightarrow>
            (\<exists>od. fst (POST_orders e req w) = Response 200 (OrderJson od)))"
proof (intro conjI allI impI)
  note valid = POST_orders_valid [OF assms]
  fix pm od
  assume a: "paymentMethodId p = Some pm \<and> truthy_number pm
    \<and> fst (POST_orders e req w) = Response 200 (OrderJson od)"
  then have "try_block e u p w = (Inr od, snd (POST_orders e req w))"
    by (cases "try_block e u p w") (auto simp add: valid split: sum.splits)
  from try_block_transaction [OF this] a
  show "tbl_transactions (snd (POST_orders e req w)) = tbl_transactions w @
              [\<lparr>t_order_id = o_id (row od), t_payment_method_id = pm, t_amount = total p,
                t_user_uid = u, t_status = ''completed'', t_category = ''selling'',
                t_type = ''income'',
                t_description = ''Payment for order #'' @ digits (o_id (row od))\<rparr>]"
    by simp
next
  note valid = POST_orders_valid [OF assms]
  assume a: "\<forall>pm. paymentMethodId p = Some pm \<longrightarrow> \<not> truthy_number pm"
  show "tbl_transactions (snd (POST_orders e req w)) = tbl_transactions w"
    by (simp add: valid try_block_no_transaction(1) [OF a])
  fix t assume "InsertTransaction t \<in> set (calls (snd (POST_orders e req w)))"
  then show "InsertTransaction t \<in> set (calls w)"
    using try_block_no_transaction(2) [OF a] by (simp add: valid)
next
  note valid = POST_orders_valid [OF assms]
  assume "fault e Insert Orders = None \<and> fault e Insert OrderItems = None
              \<and> fault e Insert Transactions = None"
  then obtain od where "fst (try_block e u p w) = Inr od"
    using try_block_no_fault by blast
  then show "\<exists>od. fst (POST_orders e req w) = Response 200 (OrderJson od)"
    by (simp add: valid)
qed

text \<open>The sample order, paid with method 2: order 12 and its one transaction.\<close>

theorem transaction_row_inserted_witness:
  "fst (POST_orders (sample_env [] []) \<lparr>session_user = Some ''ann'', body = Some sample_order\<rparr>
         sample_world)
     = Response 200 (OrderJson
         \<lparr>row = \<lparr>o_id = 12, o_customer_id = Finite 1, o_total_amount = Finite 20,
                  o_user_uid = ''ann'', o_status = ''completed'',
                  o_created_at = ''2024-06-01''\<rparr>,
          customer = Some ''Carol''\<rparr>)
   \<and> tbl_transactions (snd (POST_orders (sample_env [] [])
         \<lparr>session_user = Some ''ann'', body = Some sample_order\<rparr> sample_world))
     = [\<lparr>t_order_id = 12, t_payment_method_id = Finite 2, t_amount = Finite 20,
         t_user_uid = ''ann'', t_status = ''completed'', t_category = ''selling'',
         t_type = ''income'', t_description = ''Payment for order #12''\<rparr>]"
  using transaction_row_inserted
      [of "\<lparr>session_user = Some ''ann'', body = Some sample_order\<rparr>" "''ann''" sample_order
        "sample_env [] []" _ sample_world]
    sample_order_parse [of "[]" "[]"]
  by (simp add: handler_defs fault_sample_env sample_world_def digits.simps)

text \<open>
  C3 as it is stated fails for a \<open>paymentMethodId\<close> that is supplied as 0: the payload is
  valid, the response is 200, and no transaction is inserted.
\<close>

theorem payment_method_zero_no_transaction:
  "orderSchema_safeParse (sample_env [] []) order_payment_zero
     = Inr \<lparr>customerId = Finite 1, paymentMethodId = Some (Finite 0), total = Finite 20,
            status = None, created_at = None, products = []\<rparr>
   \<and> fst (POST_orders (sample_env [] [])
         \<lparr>session_user = Some ''ann'', body = Some order_payment_zero\<rparr> sample_world)
     = Response 200 (OrderJson
         \<lparr>row = \<lparr>o_id = 12, o_customer_id = Finite 1, o_total_amount = Finite 20,
                  o_user_uid = ''ann'', o_status = ''completed'',
                  o_created_at = ''2024-06-01''\<rparr>,
          customer = Some ''Carol''\<rparr>)
   \<and> tbl_transactions (snd (POST_orders (sample_env [] [])
         \<lparr>session_user = Some ''ann'', body = Some order_payment_zero\<rparr> sample_world)) = []"
  using order_payment_zero_parse [of "[]" "[]"]
  by (simp add: handler_defs fault_sample_env sample_world_def)

subsection \<open>C4: requests without a user\<close>

text \<open>
  C4. When no user can be resolved, each of the four handlers answers 401 with the body
  \<open>{ error: "Unauthorized" }\<close> and leaves the store as it was, the log of table calls
  included: no insert, select or delete is made. The answer is the same whatever the body
  of the request is, parseable or not: the payload is not validated.
\<close>

theorem unauthorized_401:
  assumes "session_user req = None"
  shows "GET_orders e req w = (Response 401 (ErrorJson ''Unauthorized'' None), w)
       \<and> POST_orders e req w = (Response 401 (ErrorJson ''Unauthorized'' None), w)
       \<and> GET_products e req w = (Response 401 (ErrorJson ''Unauthorized'' None), w)
       \<and> POST_products e req w = (Response 401 (ErrorJson ''Unauthorized'' None), w)"
  using assms by (simp add: GET_orders_def POST_orders_def GET_products_def POST_products_def)

text \<open>A request without a user and with an invalid body: 401, not 400.\<close>

theorem unauthorized_401_witness:
  "GET_orders (sample_env [] []) \<lparr>session_user = None, body = Some bad_order\<rparr> sample_world
     = (Response 401 (ErrorJson ''Unauthorized'' None), sample_world)
   \<and> POST_orders (sample_env [] []) \<lparr>session_user = None, body = Some bad_order\<rparr> sample_world
     = (Response 401 (ErrorJson ''Unauthorized'' None), sample_world)
   \<and> GET_products (sample_env [] []) \<lparr>session_user = None, body = Some bad_order\<rparr> sample_world
     = (Response 401 (ErrorJson ''Unauthorized'' None), sample_world)
   \<and> POST_products (sample_env [] []) \<lparr>session_user = None, body = Some bad_order\<rparr> sample_world
     = (Response 401 (ErrorJson ''Unauthorized'' None), sample_world)"
  using unauthorized_401 [of "\<lparr>session_user = None, body = Some bad_order\<rparr>"
      "sample_env [] []" sample_world]
  by simp

subsection \<open>C5: invalid bodies\<close>



subsection \<open>C6: the insert into \<open>orders\<close>\<close>

text \<open>
  C6. For an authenticated request with a valid order, the first table call is the insert
  into \<open>orders\<close>, of a row whose \<open>user_uid\<close> is the user and whose \<open>status\<close> is the one
  of the payload, or \<open>completed\<close> when the payload has none. When the store reports the
  error \<open>m\<close> for this insert, the response is 500 with the message \<open>m\<close>, and the store is
  as it was but for the log, which holds this one call more: no table has changed and no
  delete was made. When the response is 200, the returned row, with this user and this
  status, is the one row appended to \<open>orders\<close>; and the response is 200 whenever the
  store reports no error for the three inserts.
\<close>

theorem order_insert_step:
  assumes "session_user req = Some u" and "body req = Some b"
    and "orderSchema_safeParse e b = Inr p"
  shows "(\<exists>v cs. calls (snd (POST_orders e req w)) = calls w @ InsertOrder v # cs
            \<and> ins_user_uid v = u
            \<and> ins_status v = (case status p of None \<Rightarrow> ''completed'' | Some s \<Rightarrow> s))
       \<and> (\<forall>m. fault e Insert Orders = Some m \<longrightarrow>
            fst (POST_orders e req w) = Response 500 (ErrorJson m None)
            \<and> (\<exists>v. snd (POST_orders e req w) = w\<lparr>calls := calls w @ [InsertOrder v]\<rparr>))
       \<and> (\<forall>od. fst (POST_orders e req w) = Response 200 (OrderJson od) \<longrightarrow>
            tbl_orders (snd (POST_orders e req w)) = tbl_orders w @ [row od]
            \<and> o_user_uid (row od) = u
            \<and> o_status (row od) = (case status p of None \<Rightarrow> ''completed'' | Some s \<Rightarrow> s))
       \<and> (fault e Insert Orders = None \<and> fault e Insert OrderItems = None
              \<and> fault e Insert Transactions = None \<longrightarrow>
            (\<exists>od. fst (POST_orders e req w) = Response 200 (OrderJson od)))"
proof (intro conjI allI impI)
  note valid = POST_orders_valid [OF assms]
  obtain cs where "calls (snd (try_block e u p w)) = calls w @ InsertOrder (order_values u p) # cs"
    using try_block_first_call by blast
  then have "calls (snd (POST_orders e req w)) = calls w @ InsertOrder (order_values u p) # cs"
    by (simp add: valid)
  then show "\<exists>v cs. calls (snd (POST_orders e req w)) = calls w @ InsertOrder v # cs
            \<and> ins_user_uid v = u
            \<and> ins_status v = (case status p of None \<Rightarrow> ''completed'' | Some s \<Rightarrow> s)"
    by (intro exI [of _ "order_values u p"] exI [of _ cs]) (simp add: order_values_def)
next
  note valid = POST_orders_valid [OF assms]
  assume "fault e Insert Orders = None \<and> fault e Insert OrderItems = None
              \<and> fault e Insert Transactions = None"
  then obtain od where "fst (try_block e u p w) = Inr od"
    using try_block_no_fault by blast
  then show "\<exists>od. fst (POST_orders e req w) = Response 200 (OrderJson od)"
    by (simp add: valid)
next
  note valid = POST_orders_valid [OF assms]
  fix m assume m: "fault e Insert Orders = Some m"
  show "fst (POST_orders e req w) = Response 500 (ErrorJson m None)"
    by (simp add: valid try_block_insert_fails [OF m])
  show "\<exists>v. snd (POST_orders e req w) = w\<lparr>calls := calls w @ [InsertOrder v]\<rparr>"
    by (rule exI [of _ "order_values u p"])
      (simp add: valid try_block_insert_fails [OF m] record_call_def)
next
  note valid = POST_orders_valid [OF assms]
  fix od assume ok: "fst (POST_orders e req w) = Response 200 (OrderJson od)"
  then have "try_block e u p w = (Inr od, snd (POST_orders e req w))"
    by (cases "try_block e u p w") (auto simp add: valid split: sum.splits)
  from try_block_success [OF this]
  show "tbl_orders (snd (POST_orders e req w)) = tbl_orders w @ [row od]"
    and "o_user_uid (row od) = u"
    and "o_status (row od) = (case status p of None \<Rightarrow> ''completed'' | Some s \<Rightarrow> s)"
    by (simp_all add: stored_order_def order_values_def)
qed

text \<open>
  The sample order, which has no status. With the insert into \<open>orders\<close> failing: 500, and
  the store as it was but for the one logged call, an insert with the status \<open>completed\<close>.
  With no store error: 200, and the table holds one row more, order 12 of \<open>ann\<close> with
  the status \<open>completed\<close>, which is the row returned.
\<close>

theorem order_insert_step_witness:
  "POST_orders (sample_env [(Insert, Orders)] ''orders down'')
       \<lparr>session_user = Some ''ann'', body = Some sample_order\<rparr> sample_world
     = (Response 500 (ErrorJson ''orders down'' None),
        sample_world\<lparr>calls :=
          [InsertOrder \<lparr>ins_customer_id = Finite 1, ins_total_amount = Finite 20,
             ins_user_uid = ''ann'', ins_status = ''completed'', ins_created_at = None\<rparr>]\<rparr>)
   \<and> fst (POST_orders (sample_env [] [])
         \<lparr>session_user = Some ''ann'', body = Some sample_order\<rparr> sample_world)
     = Response 200 (OrderJson
         \<lparr>row = \<lparr>o_id = 12, o_customer_id = Finite 1, o_total_amount = Finite 20,
                  o_user_uid = ''ann'', o_status = ''completed'',
                  o_created_at = ''2024-06-01''\<rparr>,
          customer = Some ''Carol''\<rparr>)
   \<and> tbl_orders (snd (POST_orders (sample_env [] [])
         \<lparr>session_user = Some ''ann'', body = Some sample_order\<rparr> sample_world))
     = tbl_orders sample_world
       @ [\<lparr>o_id = 12, o_customer_id = Finite 1, o_total_amount = Finite 20,
           o_user_uid = ''ann'', o_status = ''completed'', o_created_at = ''2024-06-01''\<rparr>]
   \<and> take 1 (calls (snd (POST_orders (sample_env [] [])
         \<lparr>session_user = Some ''ann'', body = Some sample_order\<rparr> sample_world)))
     = [InsertOrder \<lparr>ins_customer_id = Finite 1, ins_total_amount = Finite 20,
          ins_user_uid = ''ann'', ins_status = ''completed'', ins_created_at = None\<rparr>]"
  using order_insert_step
      [of "\<lparr>session_user = Some ''ann'', body = Some sample_order\<rparr>" "''ann''" sample_order
        "sample_env [(Insert, Orders)] ''orders down''" _ sample_world]
    order_insert_step
      [of "\<lparr>session_user = Some ''ann'', body = Some sample_order\<rparr>" "''ann''" sample_order
        "sample_env [] []" _ sample_world]
    sample_order_parse [of "[(Insert, Orders)]" "''orders down''"]
    sample_order_parse [of "[]" "[]"]
  by (simp add: handler_defs fault_sample_env sample_world_def)

subsection \<open>C7: \<open>created_at\<close>\<close>

text \<open>
  C7, as amended. For an authenticated request with a valid order, the insert into
  \<open>orders\<close> carries the payload's \<open>created_at\<close> when it is a non-empty string, and no
  \<open>created_at\<close> when the payload has none or has the empty string. When the response is
  200, the returned row is in \<open>orders\<close>, and its \<open>created_at\<close> is the payload's non-empty
  string in the first case and the timestamp assigned by the store in the second.
\<close>

theorem created_at_forwarded:
  assumes "session_user req = Some u" and "body req = Some b"
    and "orderSchema_safeParse e b = Inr p"
  shows "(\<exists>v cs. calls (snd (POST_orders e req w)) = calls w @ InsertOrder v # cs
            \<and> ins_created_at v =
                (case created_at p of
                   None \<Rightarrow> None
                 | Some c \<Rightarrow> if c = [] then None else Some c))
       \<and> (\<forall>od. fst (POST_orders e req w) = Response 200 (OrderJson od) \<longrightarrow>
            row od \<in> set (tbl_orders (snd (POST_orders e req w)))
            \<and> o_created_at (row od) =
                (case created_at p of
                   None \<Rightarrow> now w
                 | Some c \<Rightarrow> if c = [] then now w else c))"
proof (intro conjI allI impI)
  note valid = POST_orders_valid [OF assms]
  obtain cs where "calls (snd (try_block e u p w)) = calls w @ InsertOrder (order_values u p) # cs"
    using try_block_first_call by blast
  then have "calls (snd (POST_orders e req w)) = calls w @ InsertOrder (order_values u p) # cs"
    by (simp add: valid)
  then show "\<exists>v cs. calls (snd (POST_orders e req w)) = calls w @ InsertOrder v # cs
            \<and> ins_created_at v =
                (case created_at p of
                   None \<Rightarrow> None
                 | Some c \<Rightarrow> if c = [] then None else Some c)"
    by (intro exI [of _ "order_values u p"] exI [of _ cs])
      (simp add: order_values_def truthy_string_def split: option.splits)
next
  note valid = POST_orders_valid [OF assms]
  fix od assume ok: "fst (POST_orders e req w) = Response 200 (OrderJson od)"
  then have "try_block e u p w = (Inr od, snd (POST_orders e req w))"
    by (cases "try_block e u p w") (auto simp add: valid split: sum.splits)
  from try_block_success [OF this]
  show "row od \<in> set (tbl_orders (snd (POST_orders e req w)))"
    and "o_created_at (row od) =
           (case created_at p of None \<Rightarrow> now w | Some c \<Rightarrow> if c = [] then now w else c)"
    by (simp_all add: stored_order_def order_values_def truthy_string_def split: option.splits)
qed

text \<open>An order dated 2023-12-24: the returned and the stored row carry this date.\<close>

theorem created_at_forwarded_witness:
  "map o_created_at (returned_orders (fst (POST_orders (sample_env [] [])
       \<lparr>session_user = Some ''ann'', body = Some order_created_at\<rparr> sample_world)))
     = [''2023-12-24'']
   \<and> map o_created_at (tbl_orders (snd (POST_orders (sample_env [] [])
       \<lparr>session_user = Some ''ann'', body = Some order_created_at\<rparr> sample_world)))
     = [''2024-05-01'', ''2024-05-02'', ''2023-12-24'']"
  using created_at_forwarded
      [of "\<lparr>session_user = Some ''ann'', body = Some order_created_at\<rparr>" "''ann''"
        order_created_at "sample_env [] []" _ sample_world]
    order_created_at_parse [of "[]" "[]"]
  by (simp add: handler_defs fault_sample_env sample_world_def returned_orders_def)

text \<open>
  C7 as it is stated fails for a \<open>created_at\<close> that is the empty string: the payload is
  valid and provides the string, the insert carries no \<open>created_at\<close>, and the stored row
  has the store's timestamp, 2024-06-01.
\<close>

theorem created_at_empty_replaced:
  "orderSchema_safeParse (sample_env [] []) order_created_at_empty
     = Inr \<lparr>customerId = Finite 1, paymentMethodId = None, total = Finite 20,
            status = None, created_at = Some [], products = []\<rparr>
   \<and> now sample_world = ''2024-06-01''
   \<and> map o_created_at (tbl_orders (snd (POST_orders (sample_env [] [])
       \<lparr>session_user = Some ''ann'', body = Some order_created_at_empty\<rparr> sample_world)))
     = [''2024-05-01'', ''2024-05-02'', ''2024-06-01'']
   \<and> calls (snd (POST_orders (sample_env [] [])
       \<lparr>session_user = Some ''ann'', body = Some order_created_at_empty\<rparr> sample_world))
     = [InsertOrder \<lparr>ins_customer_id = Finite 1, ins_total_amount = Finite 20,
          ins_user_uid = ''ann'', ins_status = ''completed'', ins_created_at = None\<rparr>]"
  using order_created_at_empty_parse [of "[]" "[]"]
  by (simp add: handler_defs fault_sample_env sample_world_def)

subsection \<open>C8: the quantity of an order item\<close>

text \<open>
  C8, as amended. The order schema accepts a products entry only if its quantity is an
  integer, of either sign; and after an authenticated request with a valid order, every
  row of \<open>order_items\<close> that was not there before has an integer quantity.
\<close>

theorem quantity_is_integer:
  assumes "session_user req = Some u" and "body req = Some b"
    and "orderSchema_safeParse e b = Inr p"
  shows "(\<forall>x \<in> set (products p). isInteger (pe_quantity x))
       \<and> (\<forall>r \<in> set (tbl_order_items (snd (POST_orders e req w))).
            r \<in> set (tbl_order_items w) \<or> isInteger (oi_quantity r))"
proof
  show q: "\<forall>x \<in> set (products p). isInteger (pe_quantity x)"
    using orderSchema_quantity_integer [OF assms(3)] .
  show "\<forall>r \<in> set (tbl_order_items (snd (POST_orders e req w))).
            r \<in> set (tbl_order_items w) \<or> isInteger (oi_quantity r)"
  proof
    fix r assume "r \<in> set (tbl_order_items (snd (POST_orders e req w)))"
    then have "r \<in> set (tbl_order_items w)
        \<or> r \<in> set (order_item_rows (next_order_id w) (products p))"
      using try_block_order_items [of e u p w] by (auto simp add: POST_orders_valid [OF assms])
    with q show "r \<in> set (tbl_order_items w) \<or> isInteger (oi_quantity r)"
      by (auto simp add: order_item_rows_def)
  qed
qed

text \<open>The sample order: the item of order 10, and the new item with the quantity 2.\<close>

theorem quantity_is_integer_witness:
  "map oi_quantity (tbl_order_items (snd (POST_orders (sample_env [] [])
       \<lparr>session_user = Some ''ann'', body = Some sample_order\<rparr> sample_world)))
     = [Finite 3, Finite 2]
   \<and> isInteger (Finite 2)"
  using quantity_is_integer
      [of "\<lparr>session_user = Some ''ann'', body = Some sample_order\<rparr>" "''ann''" sample_order
        "sample_env [] []" _ sample_world]
    sample_order_parse [of "[]" "[]"]
  by (simp add: handler_defs fault_sample_env sample_world_def isInteger_def)

text \<open>
  C8 as it is stated fails for the quantity -1: the schema accepts the entry, and the item
  is stored with this quantity.
\<close>

theorem negative_quantity_accepted:
  "orderSchema_safeParse (sample_env [] []) order_negative_quantity
     = Inr \<lparr>customerId = Finite 1, paymentMethodId = None, total = Finite 20,
            status = None, created_at = None,
            products = [\<lparr>pe_id = Finite 1, pe_quantity = Finite (- 1),
                         pe_price = Finite 10\<rparr>]\<rparr>
   \<and> tbl_order_items (snd (POST_orders (sample_env [] [])
       \<lparr>session_user = Some ''ann'', body = Some order_negative_quantity\<rparr> sample_world))
     = [\<lparr>oi_order_id = 10, oi_product_id = Finite 1, oi_quantity = Finite 3,
         oi_price = Finite 10\<rparr>,
        \<lparr>oi_order_id = 12, oi_product_id = Finite 1, oi_quantity = Finite (- 1),
         oi_price = Finite 10\<rparr>]"
  using order_negative_quantity_parse [of "[]" "[]"]
  by (simp add: handler_defs fault_sample_env sample_world_def)

subsection \<open>C9: rows of other users\<close>

text \<open>
  C9. For an authenticated caller \<open>u\<close>, every order that \<open>GET /orders\<close> returns is a row
  of \<open>orders\<close> whose \<open>user_uid\<close> is \<open>u\<close>, and every product that \<open>GET /products\<close> returns
  is a row of \<open>products\<close> whose \<open>user_uid\<close> is \<open>u\<close>; so no returned row belongs to another
  user \<open>v\<close>. When the store reports no error for the select, the rows returned are exactly
  the caller's rows.
\<close>

theorem rows_scoped_to_caller:
  assumes "session_user req = Some u"
  shows "(\<forall>r \<in> set (returned_orders (fst (GET_orders e req w))).
            o_user_uid r = u \<and> r \<in> set (tbl_orders w))
       \<and> (\<forall>r \<in> set (returned_products (fst (GET_products e req w))).
            p_user_uid r = u \<and> r \<in> set (tbl_products w))
       \<and> (\<forall>v. v \<noteq> u \<longrightarrow>
            (\<forall>r \<in> set (returned_orders (fst (GET_orders e req w))). o_user_uid r \<noteq> v)
            \<and> (\<forall>r \<in> set (returned_products (fst (GET_products e req w))). p_user_uid r \<noteq> v))
       \<and> (fault e Select Orders = None \<longrightarrow>
            returned_orders (fst (GET_orders e req w))
              = filter (\<lambda>r. o_user_uid r = u) (tbl_orders w))
       \<and> (fault e Select Products = None \<longrightarrow>
            returned_products (fst (GET_products e req w))
              = filter (\<lambda>r. p_user_uid r = u) (tbl_products w))"
  using assms
  by (auto simp add: GET_orders_def GET_products_def select_orders_def select_products_def
      returned_orders_def returned_products_def Let_def comp_def split: option.splits)

text \<open>
  In the sample store, which holds an order and a product of each of \<open>ann\<close> and \<open>bob\<close>:
  \<open>ann\<close> gets order 10 and product 1, \<open>bob\<close> gets order 11 and product 2.
\<close>

theorem rows_scoped_to_caller_witness:
  "map o_id (returned_orders (fst (GET_orders (sample_env [] [])
       \<lparr>session_user = Some ''ann'', body = None\<rparr> sample_world))) = [10]
   \<and> map p_id (returned_products (fst (GET_products (sample_env [] [])
       \<lparr>session_user = Some ''ann'', body = None\<rparr> sample_world))) = [1]
   \<and> map o_id (returned_orders (fst (GET_orders (sample_env [] [])
       \<lparr>session_user = Some ''bob'', body = None\<rparr> sample_world))) = [11]
   \<and> map p_id (returned_products (fst (GET_products (sample_env [] [])
       \<lparr>session_user = Some ''bob'', body = None\<rparr> sample_world))) = [2]"
  using rows_scoped_to_caller [of "\<lparr>session_user = Some ''ann'', body = None\<rparr>" "''ann''"
      "sample_env [] []" sample_world]
    rows_scoped_to_caller [of "\<lparr>session_user = Some ''bob'', body = None\<rparr>" "''bob''"
      "sample_env [] []" sample_world]
  by (simp add: fault_sample_env sample_world_def)

subsection \<open>C10: bodies that are not JSON\<close>

text \<open>
  C10. For an authenticated \<open>POST\<close> whose body is not JSON, on orders and on products, the
  rejection of \<open>request.json()\<close> leaves the handler: the handler returns no response, so
  neither a 400 nor a 500, and the store is as it was.
\<close>

theorem json_error_escapes:
  assumes "session_user req = Some u" and "body req = None"
  shows "POST_orders e req w = (Throws SyntaxError, w)
       \<and> POST_products e req w = (Throws SyntaxError, w)
       \<and> (\<forall>s b. fst (POST_orders e req w) \<noteq> Response s b)
       \<and> (\<forall>s b. fst (POST_products e req w) \<noteq> Response s b)"
  using assms by (simp add: POST_orders_def POST_products_def)

theorem json_error_escapes_witness:
  "POST_orders (sample_env [] []) \<lparr>session_user = Some ''ann'', body = None\<rparr> sample_world
     = (Throws SyntaxError, sample_world)
   \<and> POST_products (sample_env [] []) \<lparr>session_user = Some ''ann'', body = None\<rparr> sample_world
     = (Throws SyntaxError, sample_world)"
  using json_error_escapes [of "\<lparr>session_user = Some ''ann'', body = None\<rparr>" "''ann''"
      "sample_env [] []" sample_world]
  by simp


end
